theory Spec2Isabelle
  imports Complex_Main "HOL-Library.Word"
begin

section \<open>Data model\<close>

text \<open>
  An RGBA colour is a Python 4-tuple of 8-bit channels; \<open>item[3]\<close> is its alpha channel.
\<close>

type_synonym rgba = "8 word \<times> 8 word \<times> 8 word \<times> 8 word"

definition alpha :: "rgba \<Rightarrow> 8 word" where
  "alpha item = snd (snd (snd item))"

text \<open>
  A Pillow \<open>RGBA\<close> image: its size and its pixels in row-major order, as \<open>getdata\<close>
  enumerates them.
\<close>

record image =
  width :: int
  height :: int
  getdata :: "rgba list"

definition Image_new :: "int \<times> int \<Rightarrow> rgba \<Rightarrow> image" where
  "Image_new sz color =
     \<lparr>width = fst sz, height = snd sz,
      getdata = replicate (nat (fst sz * snd sz)) color\<rparr>"

text \<open>The exceptions a call into Pillow can raise, and the messages sent to Streamlit.\<close>

datatype exn = IOError | AttributeError | ValueError | MemoryError

datatype st_call = st_error string | st_warning string

text \<open>
  Pillow is not part of the repository: the calls the script makes into it are the fields of
  a record, each returning either the exception it raises or its value.
  \<^item> \<open>ImageFont_truetype font_path font_size\<close> opens the font;
  \<^item> \<open>ImageDraw_textbbox xy text font\<close> is the ink bounding box \<open>(left, top, right, bottom)\<close>;
  \<^item> \<open>ImageDraw_textlength text font\<close> is the advance width, a float;
  \<^item> \<open>FreeTypeFont_getmetrics font\<close> is \<open>(ascent, descent)\<close>;
  \<^item> \<open>ImageDraw_text img xy text font fill\<close> draws into \<open>img\<close> in place: the image keeps
    its size, and the value is the new content of each pixel, by row-major index.
\<close>

record 'font pillow =
  ImageFont_truetype :: "string \<Rightarrow> int \<Rightarrow> exn + 'font"
  ImageDraw_textbbox :: "int \<times> int \<Rightarrow> string \<Rightarrow> 'font \<Rightarrow> exn + (int \<times> int \<times> int \<times> int)"
  ImageDraw_textlength :: "string \<Rightarrow> 'font \<Rightarrow> exn + rat"
  FreeTypeFont_getmetrics :: "'font \<Rightarrow> exn + (int \<times> int)"
  ImageDraw_text :: "image \<Rightarrow> int \<times> int \<Rightarrow> string \<Rightarrow> 'font \<Rightarrow> rgba \<Rightarrow> exn + (nat \<Rightarrow> rgba)"

section \<open>Configuration\<close>

definition DEFAULT_FONT_SIZE :: int where
  "DEFAULT_FONT_SIZE = 30"

definition DEFAULT_TEXT_COLOR :: rgba where
  "DEFAULT_TEXT_COLOR = (0, 0, 0, 255)"

definition DEFAULT_BG_COLOR :: rgba where
  "DEFAULT_BG_COLOR = (0, 0, 0, 0)"

section \<open>Python built-ins used by the script\<close>

text \<open>\<open>int(x)\<close> of a float truncates towards zero.\<close>

definition py_int :: "rat \<Rightarrow> int" where
  "py_int x = (if x < 0 then \<lceil>x\<rceil> else \<lfloor>x\<rfloor>)"

text \<open>\<open>os.path.basename\<close>: what follows the last slash.\<close>

definition basename :: "string \<Rightarrow> string" where
  "basename path = rev (takeWhile (\<lambda>c. c \<noteq> CHR ''/'') (rev path))"

text \<open>
  \<open>str.isalnum\<close> of one character. A character is a code point below 256 here; among
  those, the alphanumeric ones are the ASCII digits and letters, the Latin-1 letters and the
  Latin-1 superscript digits and fractions.
\<close>

definition isalnum :: "char \<Rightarrow> bool" where
  "isalnum c =
     (let n = (of_char c :: nat) in
        (48 \<le> n \<and> n \<le> 57) \<or> (65 \<le> n \<and> n \<le> 90) \<or> (97 \<le> n \<and> n \<le> 122) \<or>
        n = 170 \<or> n = 178 \<or> n = 179 \<or> n = 181 \<or> n = 185 \<or> n = 186 \<or>
        (188 \<le> n \<and> n \<le> 190) \<or> (192 \<le> n \<and> n \<le> 214) \<or> (216 \<le> n \<and> n \<le> 246) \<or>
        248 \<le> n)"

text \<open>\<open>s.rstrip(chars)\<close> removes the trailing characters of \<open>s\<close> that occur in \<open>chars\<close>.\<close>

definition rstrip :: "string \<Rightarrow> string \<Rightarrow> string" where
  "rstrip s chars = rev (dropWhile (\<lambda>c. c \<in> set chars) (rev s))"

text \<open>\<open>sep.join(parts)\<close> with the empty separator.\<close>

definition join :: "string list \<Rightarrow> string" where
  "join parts = concat parts"

section \<open>The rasterization function\<close>

definition font_not_found :: "string \<Rightarrow> string" where
  "font_not_found font_path =
     ''Error: Font file not found at '' @ [CHR 0x27] @ font_path @ [CHR 0x27] @
     ''. Make sure '' @ [CHR 0x27] @ basename font_path @ [CHR 0x27] @
     '' is in the same directory as the script.''"

definition fallback_warning :: string where
  "fallback_warning =
     ''Using fallback for text dimension calculation (older Pillow?). Layout might be less precise.''"

definition no_dimensions :: string where
  "no_dimensions = ''Cannot determine text dimensions with this Pillow version.''"

definition zero_size :: "string \<Rightarrow> string" where
  "zero_size text =
     ''Text '' @ [CHR 0x27] @ text @ [CHR 0x27] @
     '' rendered with zero width or height. Generating 1x1 empty image.''"

text \<open>
  Lines 44 to 62, "Determine Text Dimensions": the bounding box, or \<open>None\<close> where the function
  returns \<open>None\<close>, or the exception that no handler catches; with the messages sent.
\<close>

definition text_dimensions ::
  "'font pillow \<Rightarrow> string \<Rightarrow> 'font \<Rightarrow> (exn + (int \<times> int \<times> int \<times> int) option) \<times> st_call list" where
  "text_dimensions p text font =
     (case ImageDraw_textbbox p (0, 0) text font of
        Inr bbox \<Rightarrow> (Inr (Some bbox), [])
      | Inl e \<Rightarrow>
          if e = AttributeError then
            (case ImageDraw_textlength p text font of
               Inl e1 \<Rightarrow>
                 if e1 = AttributeError
                 then (Inr None, [st_warning fallback_warning, st_error no_dimensions])
                 else (Inl e1, [st_warning fallback_warning])
             | Inr len \<Rightarrow>
                 (let text_width = py_int len in
                  case FreeTypeFont_getmetrics p font of
                    Inl e2 \<Rightarrow>
                      if e2 = AttributeError
                      then (Inr None, [st_warning fallback_warning, st_error no_dimensions])
                      else (Inl e2, [st_warning fallback_warning])
                  | Inr (ascent, descent) \<Rightarrow>
                      (let text_height = ascent + descent in
                       (Inr (Some (0, 0, text_width, text_height)),
                        [st_warning fallback_warning]))))
          else (Inl e, []))"

text \<open>
  Lines 80 to 87, "Ensure Pure Pixels": the loop over \<open>img_data\<close> that appends to
  \<open>new_data\<close>.
\<close>

fun pure_pixels :: "rgba list \<Rightarrow> rgba \<Rightarrow> rgba \<Rightarrow> rgba list \<Rightarrow> rgba list" where
  "pure_pixels [] text_color bg_color new_data = new_data"
| "pure_pixels (item # img_data) text_color bg_color new_data =
     (if 0 < alpha item
      then pure_pixels img_data text_color bg_color (new_data @ [text_color])
      else pure_pixels img_data text_color bg_color (new_data @ [bg_color]))"

text \<open>
  The function: the first component is the returned image, \<open>None\<close> for Python's \<open>None\<close>, or
  the exception that leaves the function; the second the Streamlit calls made, in order.
\<close>

definition text_to_true_pixel_art ::
  "'font pillow \<Rightarrow> string \<Rightarrow> string \<Rightarrow> int \<Rightarrow> rgba \<Rightarrow> rgba \<Rightarrow> (exn + image option) \<times> st_call list" where
  "text_to_true_pixel_art p text font_path font_size text_color bg_color =
     (case ImageFont_truetype p font_path font_size of
        Inl e \<Rightarrow>
          if e = IOError then (Inr None, [st_error (font_not_found font_path)])
          else (Inl e, [])
      | Inr font \<Rightarrow>
          (case text_dimensions p text font of
             (Inl e, msgs) \<Rightarrow> (Inl e, msgs)
           | (Inr None, msgs) \<Rightarrow> (Inr None, msgs)
           | (Inr (Some (b0, b1, b2, b3)), msgs) \<Rightarrow>
               (let text_width = b2 - b0; text_height = b3 - b1 in
                if text_width \<le> 0 \<or> text_height \<le> 0
                then (Inr (Some (Image_new (1, 1) bg_color)),
                      msgs @ [st_warning (zero_size text)])
                else
                  (let img = Image_new (text_width, text_height) bg_color in
                   case ImageDraw_text p img (- b0, - b1) text font text_color of
                     Inl e \<Rightarrow> (Inl e, msgs)
                   | Inr drawn \<Rightarrow>
                       (let img_data = map drawn [0..<length (getdata img)];
                            new_data = pure_pixels img_data text_color bg_color []
                        in (Inr (Some (img\<lparr>getdata := new_data\<rparr>)), msgs))))))"

text \<open>
  Line 75 allocates the buffer with \<open>Image.new\<close>, which raises when a buffer of that size
  cannot be allocated, before anything is drawn. The function again, with that failure:
  \<open>Image_new_raises\<close> gives the exception for a size, or \<open>None\<close> when the buffer is allocated.
  The 1 by 1 images of lines 45 and 72 are always allocated.
\<close>

definition text_to_true_pixel_art_alloc ::
  "(int \<times> int \<Rightarrow> exn option) \<Rightarrow> 'font pillow \<Rightarrow> string \<Rightarrow> string \<Rightarrow> int \<Rightarrow> rgba \<Rightarrow> rgba \<Rightarrow>
     (exn + image option) \<times> st_call list" where
  "text_to_true_pixel_art_alloc Image_new_raises p text font_path font_size text_color bg_color =
     (case ImageFont_truetype p font_path font_size of
        Inl e \<Rightarrow>
          if e = IOError then (Inr None, [st_error (font_not_found font_path)])
          else (Inl e, [])
      | Inr font \<Rightarrow>
          (case text_dimensions p text font of
             (Inl e, msgs) \<Rightarrow> (Inl e, msgs)
           | (Inr None, msgs) \<Rightarrow> (Inr None, msgs)
           | (Inr (Some (b0, b1, b2, b3)), msgs) \<Rightarrow>
               (let text_width = b2 - b0; text_height = b3 - b1 in
                if text_width \<le> 0 \<or> text_height \<le> 0
                then (Inr (Some (Image_new (1, 1) bg_color)),
                      msgs @ [st_warning (zero_size text)])
                else
                  (case Image_new_raises (text_width, text_height) of
                     Some e \<Rightarrow> (Inl e, msgs)
                   | None \<Rightarrow>
                       (let img = Image_new (text_width, text_height) bg_color in
                        case ImageDraw_text p img (- b0, - b1) text font text_color of
                          Inl e \<Rightarrow> (Inl e, msgs)
                        | Inr drawn \<Rightarrow>
                            (let img_data = map drawn [0..<length (getdata img)];
                                 new_data = pure_pixels img_data text_color bg_color []
                             in (Inr (Some (img\<lparr>getdata := new_data\<rparr>)), msgs)))))))"

text \<open>
  Two outcomes of \<open>draw.text\<close> on a buffer of \<open>n\<close> pixels are the same when they are the same
  exception, or give every pixel of the buffer the same content.
\<close>

definition same_drawing ::
  "nat \<Rightarrow> exn + (nat \<Rightarrow> rgba) \<Rightarrow> exn + (nat \<Rightarrow> rgba) \<Rightarrow> bool" where
  "same_drawing n r r' =
     (case r of
        Inl e \<Rightarrow> (case r' of Inl e' \<Rightarrow> e = e' | Inr drawn' \<Rightarrow> False)
      | Inr drawn \<Rightarrow> (case r' of Inl e' \<Rightarrow> False | Inr drawn' \<Rightarrow> map drawn [0..<n] = map drawn' [0..<n]))"

section \<open>The download file name\<close>

text \<open>Lines 165 to 169 of the script.\<close>

definition safe_filename :: "string \<Rightarrow> string" where
  "safe_filename text_input =
     (let safe = rstrip (join (map (\<lambda>c. if isalnum c then [c] else ''_'') (take 20 text_input))) ''_''
      in if safe = [] then ''pixel_text'' else safe)"

text \<open>
  The same name in the words of the specification: every character that is not alphanumeric
  becomes an underscore, the first 20 characters are kept, underscores at the end are removed
  one at a time, and an empty result is replaced by the default name.
\<close>

function trim_trailing :: "string \<Rightarrow> string" where
  "trim_trailing s = (if s \<noteq> [] \<and> last s = CHR ''_'' then trim_trailing (butlast s) else s)"
  by pat_completeness auto
termination
  by (relation "measure length") auto

declare trim_trailing.simps [simp del]

definition spec_filename :: "string \<Rightarrow> string" where
  "spec_filename text_input =
     (let replaced = map (\<lambda>c. if isalnum c then c else CHR ''_'') text_input;
          kept = take 20 replaced;
          trimmed = trim_trailing kept
      in if trimmed = [] then ''pixel_text'' else trimmed)"

section \<open>A small font facility for concrete runs\<close>

text \<open>
  One font file exists, \<open>font.ttf\<close>; a point size that is not positive is refused with
  \<open>ValueError\<close>, as Pillow does. Every text with a character other than a space prints as the
  same glyph: two fully covered pixels on the diagonal of a 2 by 2 box whose top-left corner
  is at \<open>(1, 3)\<close> from the drawing origin. A covered pixel takes the fill colour, the others
  keep their value. A text of spaces only has no ink.
\<close>

definition blank :: "string \<Rightarrow> bool" where
  "blank text = (filter (\<lambda>c. c \<noteq> CHR '' '') text = [])"

definition demo_drawn :: "image \<Rightarrow> int \<times> int \<Rightarrow> string \<Rightarrow> rgba \<Rightarrow> nat \<Rightarrow> rgba" where
  "demo_drawn img xy text fill i =
     (let x = int i mod width img - fst xy; y = int i div width img - snd xy
      in if \<not> blank text \<and> ((x = 1 \<and> y = 3) \<or> (x = 2 \<and> y = 4))
         then fill else getdata img ! i)"

definition demo_text ::
  "image \<Rightarrow> int \<times> int \<Rightarrow> string \<Rightarrow> unit \<Rightarrow> rgba \<Rightarrow> exn + (nat \<Rightarrow> rgba)" where
  "demo_text img xy text font fill = Inr (demo_drawn img xy text fill)"

definition demo_pillow :: "unit pillow" where
  "demo_pillow =
     \<lparr>ImageFont_truetype =
        (\<lambda>font_path font_size.
           if font_size \<le> 0 then Inl ValueError
           else if font_path = ''font.ttf'' then Inr () else Inl IOError),
      ImageDraw_textbbox =
        (\<lambda>xy text font.
           if blank text then Inr (fst xy, snd xy, fst xy, snd xy)
           else Inr (fst xy + 1, snd xy + 3, fst xy + 3, snd xy + 5)),
      ImageDraw_textlength = (\<lambda>text font. Inr (5 / 2 * of_nat (length text))),
      FreeTypeFont_getmetrics = (\<lambda>font. Inr (4, 1)),
      ImageDraw_text = demo_text\<rparr>"

text \<open>
  The same facility in a Pillow older than 8.0, which has neither \<open>textbbox\<close> nor
  \<open>textlength\<close>, and in one that lacks \<open>textbbox\<close> only.
\<close>

definition pillow_7 :: "unit pillow" where
  "pillow_7 =
     demo_pillow\<lparr>ImageDraw_textbbox := (\<lambda>xy text font. Inl AttributeError),
                 ImageDraw_textlength := (\<lambda>text font. Inl AttributeError)\<rparr>"

definition no_textbbox :: "unit pillow" where
  "no_textbbox = demo_pillow\<lparr>ImageDraw_textbbox := (\<lambda>xy text font. Inl AttributeError)\<rparr>"

text \<open>A drawing routine that works at one origin only.\<close>

definition draw_at_origin_only ::
  "image \<Rightarrow> int \<times> int \<Rightarrow> string \<Rightarrow> unit \<Rightarrow> rgba \<Rightarrow> exn + (nat \<Rightarrow> rgba)" where
  "draw_at_origin_only img xy text font fill =
     (if xy = (- 1, - 3) then demo_text img xy text font fill else Inl MemoryError)"

text \<open>
  A facility that differs from \<open>demo_pillow\<close> wherever the rendering of a one-glyph text
  with \<open>font.ttf\<close> does not look: the loader accepts every point size, \<open>textlength\<close> is missing,
  drawing works at the origin \<open>(- 1, - 3)\<close> only. With it, an allocator that refuses every
  size but 2 by 2.
\<close>

definition other_pillow :: "unit pillow" where
  "other_pillow =
     demo_pillow\<lparr>ImageFont_truetype :=
                   (\<lambda>font_path font_size. if font_path = ''font.ttf'' then Inr () else Inl IOError),
                 ImageDraw_textlength := (\<lambda>text font. Inl AttributeError),
                 ImageDraw_text := draw_at_origin_only\<rparr>"

definition only_2_by_2 :: "int \<times> int \<Rightarrow> exn option" where
  "only_2_by_2 sz = (if sz = (2, 2) then None else Some MemoryError)"

text \<open>
  A long text on a font whose characters advance by 12 pixels in a box 24 pixels high, and
  a machine that cannot allocate more than \<open>2 ^ 30\<close> pixels.
\<close>

definition long_text :: string where
  "long_text = replicate 50000000 CHR ''A''"

definition wide_pillow :: "unit pillow" where
  "wide_pillow =
     demo_pillow\<lparr>ImageDraw_textbbox :=
        (\<lambda>xy text font.
           Inr (fst xy, snd xy + 6, fst xy + 12 * int (length text), snd xy + 30))\<rparr>"

definition memory_limit :: "int \<times> int \<Rightarrow> exn option" where
  "memory_limit sz = (if 2 ^ 30 < fst sz * snd sz then Some MemoryError else None)"

section \<open>Properties\<close>

lemma pure_pixels_map:
  "pure_pixels img_data tc bc new_data =
     new_data @ map (\<lambda>item. if 0 < alpha item then tc else bc) img_data"
  by (induction img_data arbitrary: new_data) simp_all

lemma text_dimensions_precise:
  "ImageDraw_textbbox p (0, 0) text font = Inr bbox \<Longrightarrow>
   text_dimensions p text font = (Inr (Some bbox), [])"
  by (simp add: text_dimensions_def)

lemma text_dimensions_msgs:
  "text_dimensions p text font = (Inr (Some bbox), msgs) \<Longrightarrow>
   msgs = [] \<or> msgs = [st_warning fallback_warning]"
  by (auto simp: text_dimensions_def Let_def split: sum.splits if_splits prod.splits)

lemma text_dimensions_draw_irrelevant:
  "text_dimensions (p\<lparr>ImageDraw_text := d\<rparr>) text font = text_dimensions p text font"
  by (simp add: text_dimensions_def cong: sum.case_cong if_cong)

lemma rasterized:
  assumes "ImageFont_truetype p font_path font_size = Inr font"
    and "text_dimensions p text font = (Inr (Some (b0, b1, b2, b3)), msgs)"
    and "0 < b2 - b0" and "0 < b3 - b1"
    and "ImageDraw_text p (Image_new (b2 - b0, b3 - b1) bc) (- b0, - b1) text font tc = Inr drawn"
  shows "text_to_true_pixel_art p text font_path font_size tc bc =
     (Inr (Some \<lparr>width = b2 - b0, height = b3 - b1,
                 getdata = map (\<lambda>i. if 0 < alpha (drawn i) then tc else bc)
                               [0..<nat ((b2 - b0) * (b3 - b1))]\<rparr>), msgs)"
  using assms
  by (simp add: text_to_true_pixel_art_def Let_def pure_pixels_map Image_new_def o_def)

lemma degenerate:
  assumes "ImageFont_truetype p font_path font_size = Inr font"
    and "text_dimensions p text font = (Inr (Some (b0, b1, b2, b3)), msgs)"
    and "b2 - b0 \<le> 0 \<or> b3 - b1 \<le> 0"
  shows "text_to_true_pixel_art p text font_path font_size tc bc =
     (Inr (Some \<lparr>width = 1, height = 1, getdata = [bc]\<rparr>), msgs @ [st_warning (zero_size text)])"
  using assms
  by (auto simp add: text_to_true_pixel_art_def Let_def Image_new_def)


lemma text_dimensions_raises:
  "fst (text_dimensions p text font) = Inl e \<longleftrightarrow>
     (ImageDraw_textbbox p (0, 0) text font = Inl e \<and> e \<noteq> AttributeError) \<or>
     (ImageDraw_textbbox p (0, 0) text font = Inl AttributeError \<and>
        ((ImageDraw_textlength p text font = Inl e \<and> e \<noteq> AttributeError) \<or>
         (\<exists>len. ImageDraw_textlength p text font = Inr len \<and>
                FreeTypeFont_getmetrics p font = Inl e \<and> e \<noteq> AttributeError)))"
  by (auto simp: text_dimensions_def Let_def split: sum.splits if_splits prod.splits)

lemma text_dimensions_fallback:
  assumes "ImageDraw_textbbox p (0, 0) text font = Inl AttributeError"
  shows "text_dimensions p text font =
     (case ImageDraw_textlength p text font of
        Inl e \<Rightarrow> if e = AttributeError
                 then (Inr None, [st_warning fallback_warning, st_error no_dimensions])
                 else (Inl e, [st_warning fallback_warning])
      | Inr len \<Rightarrow>
          (case FreeTypeFont_getmetrics p font of
             Inl e \<Rightarrow> if e = AttributeError
                      then (Inr None, [st_warning fallback_warning, st_error no_dimensions])
                      else (Inl e, [st_warning fallback_warning])
           | Inr (ascent, descent) \<Rightarrow>
               (Inr (Some (0, 0, py_int len, ascent + descent)), [st_warning fallback_warning])))"
  using assms by (auto simp: text_dimensions_def Let_def split: sum.splits prod.splits)

text \<open>
  Where every buffer can be allocated, the function with the allocation failure is
  \<open>text_to_true_pixel_art\<close>.
\<close>

lemma allocated:
  "text_to_true_pixel_art_alloc (\<lambda>sz. None) p text font_path font_size text_color bg_color
     = text_to_true_pixel_art p text font_path font_size text_color bg_color"
  by (simp add: text_to_true_pixel_art_alloc_def text_to_true_pixel_art_def Let_def
      split: sum.splits option.splits prod.splits)

lemma alloc_dims:
  assumes "ImageFont_truetype p font_path font_size = Inr font"
    and "text_dimensions p text font = (r, msgs)"
  shows "text_to_true_pixel_art_alloc raises p text font_path font_size text_color bg_color =
     (case r of
        Inl e \<Rightarrow> (Inl e, msgs)
      | Inr None \<Rightarrow> (Inr None, msgs)
      | Inr (Some (b0, b1, b2, b3)) \<Rightarrow>
          if b2 - b0 \<le> 0 \<or> b3 - b1 \<le> 0
          then (Inr (Some \<lparr>width = 1, height = 1, getdata = [bg_color]\<rparr>),
                msgs @ [st_warning (zero_size text)])
          else
            (case raises (b2 - b0, b3 - b1) of
               Some e \<Rightarrow> (Inl e, msgs)
             | None \<Rightarrow>
                 (case ImageDraw_text p (Image_new (b2 - b0, b3 - b1) bg_color) (- b0, - b1) text font
                         text_color of
                    Inl e \<Rightarrow> (Inl e, msgs)
                  | Inr drawn \<Rightarrow>
                      (Inr (Some \<lparr>width = b2 - b0, height = b3 - b1,
                                  getdata = map (\<lambda>i. if 0 < alpha (drawn i) then text_color else bg_color)
                                                [0..<nat ((b2 - b0) * (b3 - b1))]\<rparr>), msgs))))"
  using assms
  by (auto simp: text_to_true_pixel_art_alloc_def Let_def pure_pixels_map Image_new_def o_def
      split: sum.splits option.splits prod.splits)

lemma fallback_warns:
  assumes "ImageDraw_textbbox p (0, 0) text font = Inl AttributeError"
  shows "\<exists>rest. snd (text_dimensions p text font) = st_warning fallback_warning # rest"
  unfolding text_dimensions_fallback [OF assms]
  by (auto split: sum.splits prod.splits)

lemma alloc_msgs:
  assumes "ImageFont_truetype p font_path font_size = Inr font"
  shows "\<exists>more. snd (text_to_true_pixel_art_alloc raises p text font_path font_size text_color bg_color)
                 = snd (text_dimensions p text font) @ more"
proof -
  obtain r msgs where dims: "text_dimensions p text font = (r, msgs)"
    by (cases "text_dimensions p text font")
  show ?thesis
    unfolding alloc_dims [OF assms dims] dims
    by (auto split: sum.splits option.splits prod.splits)
qed

lemma alloc_raises:
  assumes "ImageFont_truetype p font_path font_size = Inr font"
  shows "fst (text_to_true_pixel_art_alloc raises p text font_path font_size text_color bg_color) = Inl e
     \<longleftrightarrow>
     fst (text_dimensions p text font) = Inl e \<or>
     (\<exists>b0 b1 b2 b3.
        fst (text_dimensions p text font) = Inr (Some (b0, b1, b2, b3)) \<and>
        0 < b2 - b0 \<and> 0 < b3 - b1 \<and>
        (raises (b2 - b0, b3 - b1) = Some e \<or>
         (raises (b2 - b0, b3 - b1) = None \<and>
          ImageDraw_text p (Image_new (b2 - b0, b3 - b1) bg_color) (- b0, - b1) text font text_color
            = Inl e)))"
proof -
  obtain r msgs where dims: "text_dimensions p text font = (r, msgs)"
    by (cases "text_dimensions p text font")
  show ?thesis
    unfolding alloc_dims [OF assms dims] dims
    by (auto split: sum.splits option.splits prod.splits)
qed

text \<open>
  C1. On the rasterization path (the font loads, the measured width and height are positive,
  drawing succeeds) every pixel of the returned buffer is \<open>text_color\<close> where the alpha of the
  drawn pixel is positive and \<open>bg_color\<close> where it is zero; no other value occurs.
\<close>

theorem quantization_is_binary:
  assumes "ImageFont_truetype p font_path font_size = Inr font"
    and "text_dimensions p text font = (Inr (Some (b0, b1, b2, b3)), msgs)"
    and "0 < b2 - b0" and "0 < b3 - b1"
    and "ImageDraw_text p (Image_new (b2 - b0, b3 - b1) bg_color) (- b0, - b1) text font text_color
           = Inr drawn"
  shows "\<exists>img. text_to_true_pixel_art p text font_path font_size text_color bg_color
                = (Inr (Some img), msgs) \<and>
           length (getdata img) = nat ((b2 - b0) * (b3 - b1)) \<and>
           (\<forall>i < length (getdata img).
              (0 < alpha (drawn i) \<longrightarrow> getdata img ! i = text_color) \<and>
              (alpha (drawn i) = 0 \<longrightarrow> getdata img ! i = bg_color)) \<and>
           (\<forall>px \<in> set (getdata img). px = text_color \<or> px = bg_color)"
  unfolding rasterized [OF assms] by auto

theorem quantization_is_binary_witness:
  "\<exists>img. text_to_true_pixel_art demo_pillow ''A'' ''font.ttf'' 30 DEFAULT_TEXT_COLOR DEFAULT_BG_COLOR
            = (Inr (Some img), []) \<and>
         length (getdata img) = 4 \<and>
         (\<forall>px \<in> set (getdata img). px = DEFAULT_TEXT_COLOR \<or> px = DEFAULT_BG_COLOR)"
proof -
  have font: "ImageFont_truetype demo_pillow ''font.ttf'' 30 = Inr ()"
    by (simp add: demo_pillow_def)
  have box: "text_dimensions demo_pillow ''A'' () = (Inr (Some (1, 3, 3, 5)), [])"
    by (simp add: text_dimensions_def demo_pillow_def blank_def)
  have draw: "ImageDraw_text demo_pillow (Image_new (3 - 1, 5 - 3) DEFAULT_BG_COLOR) (- 1, - 3) ''A'' ()
                DEFAULT_TEXT_COLOR
              = Inr (demo_drawn (Image_new (3 - 1, 5 - 3) DEFAULT_BG_COLOR) (- 1, - 3) ''A''
                       DEFAULT_TEXT_COLOR)"
    by (simp add: demo_pillow_def demo_text_def)
  from quantization_is_binary [OF font box _ _ draw] show ?thesis
    by auto
qed


text \<open>
  C2. When the measured width or height is not positive, the function returns a 1 by 1 image
  holding \<open>bg_color\<close>: a normal result with a warning and no error, whatever the drawing
  routine would do, since it is not called.
\<close>

theorem degenerate_text:
  assumes "ImageFont_truetype p font_path font_size = Inr font"
    and "text_dimensions p text font = (Inr (Some (b0, b1, b2, b3)), msgs)"
    and "b2 - b0 \<le> 0 \<or> b3 - b1 \<le> 0"
  shows "text_to_true_pixel_art p text font_path font_size text_color bg_color
           = (Inr (Some \<lparr>width = 1, height = 1, getdata = [bg_color]\<rparr>),
              msgs @ [st_warning (zero_size text)]) \<and>
         (msgs = [] \<or> msgs = [st_warning fallback_warning]) \<and>
         text_to_true_pixel_art (p\<lparr>ImageDraw_text := d\<rparr>) text font_path font_size text_color bg_color
           = text_to_true_pixel_art p text font_path font_size text_color bg_color"
proof -
  let ?q = "p\<lparr>ImageDraw_text := d\<rparr>"
  have "ImageFont_truetype ?q font_path font_size = Inr font"
    using assms(1) by simp
  moreover have "text_dimensions ?q text font = (Inr (Some (b0, b1, b2, b3)), msgs)"
    using assms(2) by (simp add: text_dimensions_draw_irrelevant)
  ultimately have "text_to_true_pixel_art ?q text font_path font_size text_color bg_color
      = (Inr (Some \<lparr>width = 1, height = 1, getdata = [bg_color]\<rparr>),
         msgs @ [st_warning (zero_size text)])"
    using assms(3) by (rule degenerate)
  then show ?thesis
    using degenerate [OF assms] text_dimensions_msgs [OF assms(2)] by simp
qed

theorem degenerate_text_witness:
  "text_to_true_pixel_art demo_pillow [] ''font.ttf'' 30 DEFAULT_TEXT_COLOR DEFAULT_BG_COLOR
     = (Inr (Some \<lparr>width = 1, height = 1, getdata = [DEFAULT_BG_COLOR]\<rparr>),
        [st_warning (zero_size [])]) \<and>
   text_to_true_pixel_art demo_pillow ''  '' ''font.ttf'' 30 DEFAULT_TEXT_COLOR DEFAULT_BG_COLOR
     = (Inr (Some \<lparr>width = 1, height = 1, getdata = [DEFAULT_BG_COLOR]\<rparr>),
        [st_warning (zero_size ''  '')])"
proof -
  have font: "ImageFont_truetype demo_pillow ''font.ttf'' 30 = Inr ()"
    by (simp add: demo_pillow_def)
  have empty: "text_dimensions demo_pillow [] () = (Inr (Some (0, 0, 0, 0)), [])"
    by (simp add: text_dimensions_def demo_pillow_def blank_def)
  have spaces: "text_dimensions demo_pillow ''  '' () = (Inr (Some (0, 0, 0, 0)), [])"
    by (simp add: text_dimensions_def demo_pillow_def blank_def)
  show ?thesis
    using degenerate_text [OF font empty] degenerate_text [OF font spaces] by simp
qed

text \<open>
  C3. For a non-degenerate text the returned image has the width and height of the bounding
  box reported by \<open>textbbox\<close>, and its content comes from the one drawing call at the origin
  \<open>(- b0, - b1)\<close> on the buffer of that size: a drawing routine that agrees on this call
  gives the same result.
\<close>

theorem tight_bounding_box:
  assumes "ImageFont_truetype p font_path font_size = Inr font"
    and "ImageDraw_textbbox p (0, 0) text font = Inr (b0, b1, b2, b3)"
    and "0 < b2 - b0" and "0 < b3 - b1"
    and "ImageDraw_text p (Image_new (b2 - b0, b3 - b1) bg_color) (- b0, - b1) text font
           text_color = Inr drawn"
  shows "(\<exists>img. text_to_true_pixel_art p text font_path font_size text_color bg_color
                 = (Inr (Some img), []) \<and>
            width img = b2 - b0 \<and> height img = b3 - b1 \<and>
            length (getdata img) = nat (width img * height img) \<and>
            getdata img = map (\<lambda>i. if 0 < alpha (drawn i) then text_color else bg_color)
                              [0..<nat (width img * height img)]) \<and>
         (d (Image_new (b2 - b0, b3 - b1) bg_color) (- b0, - b1) text font text_color
            = Inr drawn \<longrightarrow>
          text_to_true_pixel_art (p\<lparr>ImageDraw_text := d\<rparr>) text font_path font_size text_color bg_color
            = text_to_true_pixel_art p text font_path font_size text_color bg_color)"
proof -
  note box = text_dimensions_precise [OF assms(2)]
  note here = rasterized [OF assms(1) box assms(3,4,5)]
  have there: "text_to_true_pixel_art (p\<lparr>ImageDraw_text := d\<rparr>) text font_path font_size
                 text_color bg_color
               = text_to_true_pixel_art p text font_path font_size text_color bg_color"
    if d: "d (Image_new (b2 - b0, b3 - b1) bg_color) (- b0, - b1) text font text_color
             = Inr drawn"
  proof -
    let ?q = "p\<lparr>ImageDraw_text := d\<rparr>"
    have "ImageFont_truetype ?q font_path font_size = Inr font"
      using assms(1) by simp
    moreover have "text_dimensions ?q text font = (Inr (Some (b0, b1, b2, b3)), [])"
      using box by (simp add: text_dimensions_draw_irrelevant)
    moreover have "ImageDraw_text ?q (Image_new (b2 - b0, b3 - b1) bg_color)
                     (- b0, - b1) text font text_color = Inr drawn"
      using d by simp
    ultimately show ?thesis
      using assms(3,4) here by (simp add: rasterized)
  qed
  show ?thesis
    using here there by simp
qed

theorem tight_bounding_box_witness:
  "(\<exists>img. text_to_true_pixel_art demo_pillow ''Hi'' ''font.ttf'' 30 DEFAULT_TEXT_COLOR DEFAULT_BG_COLOR
            = (Inr (Some img), []) \<and>
         width img = 3 - 1 \<and> height img = 5 - 3 \<and> length (getdata img) = 4) \<and>
   text_to_true_pixel_art (demo_pillow\<lparr>ImageDraw_text := draw_at_origin_only\<rparr>) ''Hi'' ''font.ttf'' 30
       DEFAULT_TEXT_COLOR DEFAULT_BG_COLOR
     = text_to_true_pixel_art demo_pillow ''Hi'' ''font.ttf'' 30 DEFAULT_TEXT_COLOR DEFAULT_BG_COLOR"
proof -
  have font: "ImageFont_truetype demo_pillow ''font.ttf'' 30 = Inr ()"
    by (simp add: demo_pillow_def)
  have box: "ImageDraw_textbbox demo_pillow (0, 0) ''Hi'' () = Inr (1, 3, 3, 5)"
    by (simp add: demo_pillow_def blank_def)
  have draw: "ImageDraw_text demo_pillow (Image_new (3 - 1, 5 - 3) DEFAULT_BG_COLOR) (- 1, - 3) ''Hi'' ()
                DEFAULT_TEXT_COLOR
              = Inr (demo_drawn (Image_new (3 - 1, 5 - 3) DEFAULT_BG_COLOR) (- 1, - 3) ''Hi''
                       DEFAULT_TEXT_COLOR)"
    by (simp add: demo_pillow_def demo_text_def)
  have "0 < (3::int) - 1" and "0 < (5::int) - 3"
    by simp_all
  from tight_bounding_box [OF font box this draw, where d = draw_at_origin_only]
  show ?thesis
    by (auto simp: draw_at_origin_only_def demo_text_def)
qed

text \<open>
  C4 as stated fails in its last clause: for the empty text the function sends a warning to
  Streamlit besides returning the 1 by 1 buffer.
\<close>

theorem side_effect_counterexample:
  "text_to_true_pixel_art_alloc memory_limit demo_pillow [] ''font.ttf'' 30
       DEFAULT_TEXT_COLOR DEFAULT_BG_COLOR
     = (Inr (Some \<lparr>width = 1, height = 1, getdata = [DEFAULT_BG_COLOR]\<rparr>),
        [st_warning (zero_size [])]) \<and>
   snd (text_to_true_pixel_art_alloc memory_limit demo_pillow [] ''font.ttf'' 30
          DEFAULT_TEXT_COLOR DEFAULT_BG_COLOR) \<noteq> []"
  by (simp add: text_to_true_pixel_art_alloc_def text_dimensions_def demo_pillow_def blank_def
      Image_new_def)

lemma text_dimensions_calls:
  assumes "ImageDraw_textbbox p (0, 0) text font = ImageDraw_textbbox p' (0, 0) text font"
    and "ImageDraw_textbbox p (0, 0) text font = Inl AttributeError \<Longrightarrow>
         ImageDraw_textlength p text font = ImageDraw_textlength p' text font"
    and "\<And>len. ImageDraw_textbbox p (0, 0) text font = Inl AttributeError \<Longrightarrow>
         ImageDraw_textlength p text font = Inr len \<Longrightarrow>
         FreeTypeFont_getmetrics p font = FreeTypeFont_getmetrics p' font"
  shows "text_dimensions p text font = text_dimensions p' text font"
proof (cases "ImageDraw_textbbox p (0, 0) text font = Inl AttributeError")
  case True
  with assms(1) have there: "ImageDraw_textbbox p' (0, 0) text font = Inl AttributeError"
    by simp
  note len = assms(2) [OF True]
  show ?thesis
  proof (cases "ImageDraw_textlength p text font")
    case (Inl e)
    moreover from Inl len have "ImageDraw_textlength p' text font = Inl e"
      by simp
    ultimately show ?thesis
      by (simp add: text_dimensions_fallback [OF True] text_dimensions_fallback [OF there])
  next
    case (Inr l)
    moreover from Inr len have "ImageDraw_textlength p' text font = Inr l"
      by simp
    moreover note assms(3) [OF True Inr]
    ultimately show ?thesis
      by (simp add: text_dimensions_fallback [OF True] text_dimensions_fallback [OF there])
  qed
next
  case False
  with assms(1) show ?thesis
    by (auto simp: text_dimensions_def split: sum.splits)
qed

lemma same_drawing_quantized:
  assumes "same_drawing n (Inr drawn) (Inr drawn')"
  shows "map (\<lambda>i. if 0 < alpha (drawn i) then tc else bc) [0..<n]
           = map (\<lambda>i. if 0 < alpha (drawn' i) then tc else (bc::rgba)) [0..<n]"
proof -
  have "map drawn [0..<n] = map drawn' [0..<n]"
    using assms by (simp add: same_drawing_def)
  then have "map (\<lambda>item. if 0 < alpha item then tc else bc) (map drawn [0..<n])
               = map (\<lambda>item. if 0 < alpha item then tc else bc) (map drawn' [0..<n])"
    by simp
  then show ?thesis
    by (simp add: o_def)
qed

text \<open>
  C4, amended. The result, buffer and Streamlit messages together, is determined by the
  arguments and by the answers to the calls the function makes. Two font facilities and
  allocators give the same result when they agree on those calls only: the loader on this path
  and size, \<open>textbbox\<close> on this text, \<open>textlength\<close> and \<open>getmetrics\<close> where the fallback is
  taken, \<open>Image.new\<close> and \<open>draw.text\<close> for the measured box and on the pixels of the buffer.
  Besides the buffer the function sends messages to Streamlit; it sends none when the font
  loads, \<open>textbbox\<close> is available and the box is not degenerate.
\<close>

theorem deterministic:
  assumes load: "ImageFont_truetype p font_path font_size = ImageFont_truetype p' font_path font_size"
    and box: "\<And>font. ImageFont_truetype p font_path font_size = Inr font \<Longrightarrow>
        ImageDraw_textbbox p (0, 0) text font = ImageDraw_textbbox p' (0, 0) text font"
    and len: "\<And>font. ImageFont_truetype p font_path font_size = Inr font \<Longrightarrow>
        ImageDraw_textbbox p (0, 0) text font = Inl AttributeError \<Longrightarrow>
        ImageDraw_textlength p text font = ImageDraw_textlength p' text font"
    and metrics: "\<And>font len. ImageFont_truetype p font_path font_size = Inr font \<Longrightarrow>
        ImageDraw_textbbox p (0, 0) text font = Inl AttributeError \<Longrightarrow>
        ImageDraw_textlength p text font = Inr len \<Longrightarrow>
        FreeTypeFont_getmetrics p font = FreeTypeFont_getmetrics p' font"
    and alloc: "\<And>font b0 b1 b2 b3. ImageFont_truetype p font_path font_size = Inr font \<Longrightarrow>
        fst (text_dimensions p text font) = Inr (Some (b0, b1, b2, b3)) \<Longrightarrow>
        0 < b2 - b0 \<Longrightarrow> 0 < b3 - b1 \<Longrightarrow>
        Image_new_raises (b2 - b0, b3 - b1) = Image_new_raises' (b2 - b0, b3 - b1)"
    and draw: "\<And>font b0 b1 b2 b3. ImageFont_truetype p font_path font_size = Inr font \<Longrightarrow>
        fst (text_dimensions p text font) = Inr (Some (b0, b1, b2, b3)) \<Longrightarrow>
        0 < b2 - b0 \<Longrightarrow> 0 < b3 - b1 \<Longrightarrow>
        Image_new_raises (b2 - b0, b3 - b1) = None \<Longrightarrow>
        same_drawing (nat ((b2 - b0) * (b3 - b1)))
          (ImageDraw_text p (Image_new (b2 - b0, b3 - b1) bg_color) (- b0, - b1) text font text_color)
          (ImageDraw_text p' (Image_new (b2 - b0, b3 - b1) bg_color) (- b0, - b1) text font text_color)"
  shows "text_to_true_pixel_art_alloc Image_new_raises p text font_path font_size text_color bg_color
           = text_to_true_pixel_art_alloc Image_new_raises' p' text font_path font_size text_color
               bg_color \<and>
         (ImageFont_truetype p font_path font_size = Inr font \<and>
          ImageDraw_textbbox p (0, 0) text font = Inr (b0, b1, b2, b3) \<and>
          0 < b2 - b0 \<and> 0 < b3 - b1 \<longrightarrow>
          snd (text_to_true_pixel_art_alloc Image_new_raises p text font_path font_size text_color
                 bg_color) = [])"
proof -
  have same: "text_to_true_pixel_art_alloc Image_new_raises p text font_path font_size text_color
                bg_color
              = text_to_true_pixel_art_alloc Image_new_raises' p' text font_path font_size
                  text_color bg_color"
  proof (cases "ImageFont_truetype p font_path font_size")
    case (Inl e)
    moreover from Inl load have "ImageFont_truetype p' font_path font_size = Inl e"
      by simp
    ultimately show ?thesis
      by (simp add: text_to_true_pixel_art_alloc_def)
  next
    case (Inr f)
    with load have there: "ImageFont_truetype p' font_path font_size = Inr f"
      by simp
    obtain r msgs where dims: "text_dimensions p text f = (r, msgs)"
      by (cases "text_dimensions p text f")
    have "text_dimensions p text f = text_dimensions p' text f"
      using box [OF Inr] len [OF Inr] metrics [OF Inr] by (rule text_dimensions_calls)
    with dims have dims': "text_dimensions p' text f = (r, msgs)"
      by simp
    show ?thesis
    proof (cases r)
      case (Inl e)
      then show ?thesis
        by (simp add: alloc_dims [OF Inr dims] alloc_dims [OF there dims'])
    next
      case r: (Inr b)
      show ?thesis
      proof (cases b)
        case None
        with r show ?thesis
          by (simp add: alloc_dims [OF Inr dims] alloc_dims [OF there dims'])
      next
        case (Some bbox)
        obtain c0 c1 c2 c3 where bbox: "bbox = (c0, c1, c2, c3)"
          by (cases bbox)
        have measured: "fst (text_dimensions p text f) = Inr (Some (c0, c1, c2, c3))"
          using dims r Some bbox by simp
        show ?thesis
        proof (cases "c2 - c0 \<le> 0 \<or> c3 - c1 \<le> 0")
          case True
          then show ?thesis
            using r Some bbox
            by (simp add: alloc_dims [OF Inr dims] alloc_dims [OF there dims'])
        next
          case False
          then have pos: "0 < c2 - c0" "0 < c3 - c1"
            by simp_all
          note a = alloc [OF Inr measured pos]
          show ?thesis
          proof (cases "Image_new_raises (c2 - c0, c3 - c1)")
            case (Some e)
            moreover from Some a have "Image_new_raises' (c2 - c0, c3 - c1) = Some e"
              by simp
            ultimately show ?thesis
              using False r \<open>b = Some bbox\<close> bbox
              by (simp add: alloc_dims [OF Inr dims] alloc_dims [OF there dims'])
          next
            case None
            from None a have a': "Image_new_raises' (c2 - c0, c3 - c1) = None"
              by simp
            note d = draw [OF Inr measured pos None]
            let ?here = "ImageDraw_text p (Image_new (c2 - c0, c3 - c1) bg_color) (- c0, - c1) text f
                           text_color"
            let ?there = "ImageDraw_text p' (Image_new (c2 - c0, c3 - c1) bg_color) (- c0, - c1) text f
                            text_color"
            have "(\<exists>e. ?here = Inl e \<and> ?there = Inl e) \<or>
                  (\<exists>drawn drawn'. ?here = Inr drawn \<and> ?there = Inr drawn' \<and>
                     same_drawing (nat ((c2 - c0) * (c3 - c1))) (Inr drawn) (Inr drawn'))"
              using d by (auto simp: same_drawing_def split: sum.splits)
            then show ?thesis
            proof (elim disjE exE conjE)
              fix e
              assume "?here = Inl e" "?there = Inl e"
              with a' None False r \<open>b = Some bbox\<close> bbox show ?thesis
                by (simp add: alloc_dims [OF Inr dims] alloc_dims [OF there dims'])
            next
              fix drawn drawn'
              assume "?here = Inr drawn" "?there = Inr drawn'"
                and "same_drawing (nat ((c2 - c0) * (c3 - c1))) (Inr drawn) (Inr drawn')"
              with a' None False r \<open>b = Some bbox\<close> bbox show ?thesis
                by (simp add: alloc_dims [OF Inr dims] alloc_dims [OF there dims']
                    same_drawing_quantized)
            qed
          qed
        qed
      qed
    qed
  qed
  have quiet: "snd (text_to_true_pixel_art_alloc Image_new_raises p text font_path font_size
                      text_color bg_color) = []"
    if "ImageFont_truetype p font_path font_size = Inr font"
      and "ImageDraw_textbbox p (0, 0) text font = Inr (b0, b1, b2, b3)"
      and "0 < b2 - b0" and "0 < b3 - b1"
    using that(3,4)
    unfolding alloc_dims [OF that(1) text_dimensions_precise [OF that(2)]]
    by (auto split: sum.splits option.splits)
  show ?thesis
    using same quiet by blast
qed

theorem deterministic_witness:
  "text_to_true_pixel_art_alloc memory_limit demo_pillow ''A'' ''font.ttf'' 30
       DEFAULT_TEXT_COLOR DEFAULT_BG_COLOR
     = text_to_true_pixel_art_alloc only_2_by_2 other_pillow ''A'' ''font.ttf'' 30
         DEFAULT_TEXT_COLOR DEFAULT_BG_COLOR \<and>
   snd (text_to_true_pixel_art_alloc memory_limit demo_pillow ''A'' ''font.ttf'' 30
          DEFAULT_TEXT_COLOR DEFAULT_BG_COLOR) = [] \<and>
   ImageDraw_textlength demo_pillow ''A'' () \<noteq> ImageDraw_textlength other_pillow ''A'' () \<and>
   ImageFont_truetype demo_pillow ''font.ttf'' 0 \<noteq> ImageFont_truetype other_pillow ''font.ttf'' 0 \<and>
   memory_limit (1, 1) \<noteq> only_2_by_2 (1, 1)"
proof -
  have font: "ImageFont_truetype demo_pillow ''font.ttf'' 30 = Inr ()"
    by (simp add: demo_pillow_def)
  have box: "ImageDraw_textbbox demo_pillow (0, 0) ''A'' () = Inr (1, 3, 3, 5)"
    by (simp add: demo_pillow_def blank_def)
  have dims: "fst (text_dimensions demo_pillow ''A'' font) = Inr (Some (b0, b1, b2, b3)) \<longleftrightarrow>
      (b0, b1, b2, b3) = (1, 3, 3, 5)" for font b0 b1 b2 b3
    by (auto simp: text_dimensions_def demo_pillow_def blank_def)
  have load: "ImageFont_truetype demo_pillow ''font.ttf'' 30 = ImageFont_truetype other_pillow ''font.ttf'' 30"
    by (simp add: demo_pillow_def other_pillow_def)
  have measure: "ImageDraw_textbbox demo_pillow (0, 0) ''A'' font
      = ImageDraw_textbbox other_pillow (0, 0) ''A'' font" for font
    by (simp add: other_pillow_def)
  have available: "ImageDraw_textbbox demo_pillow (0, 0) ''A'' font \<noteq> Inl AttributeError" for font
    by (simp add: demo_pillow_def blank_def)
  have alloc: "memory_limit (b2 - b0, b3 - b1) = only_2_by_2 (b2 - b0, b3 - b1)"
    if "fst (text_dimensions demo_pillow ''A'' font) = Inr (Some (b0, b1, b2, b3))"
    for font b0 b1 b2 b3
  proof -
    from that have "(b0, b1, b2, b3) = (1, 3, 3, 5)"
      by (simp only: dims)
    then show ?thesis
      by (simp add: memory_limit_def only_2_by_2_def)
  qed
  have draw: "same_drawing (nat ((b2 - b0) * (b3 - b1)))
        (ImageDraw_text demo_pillow (Image_new (b2 - b0, b3 - b1) DEFAULT_BG_COLOR) (- b0, - b1) ''A''
           font DEFAULT_TEXT_COLOR)
        (ImageDraw_text other_pillow (Image_new (b2 - b0, b3 - b1) DEFAULT_BG_COLOR) (- b0, - b1) ''A''
           font DEFAULT_TEXT_COLOR)"
    if "fst (text_dimensions demo_pillow ''A'' font) = Inr (Some (b0, b1, b2, b3))"
    for font b0 b1 b2 b3
  proof -
    from that have "(b0, b1, b2, b3) = (1, 3, 3, 5)"
      by (simp only: dims)
    then show ?thesis
      by (simp add: demo_pillow_def other_pillow_def draw_at_origin_only_def demo_text_def
          same_drawing_def)
  qed
  note run = deterministic [of demo_pillow "''font.ttf''" 30 other_pillow "''A''" memory_limit
      only_2_by_2 DEFAULT_BG_COLOR DEFAULT_TEXT_COLOR "()" 1 3 3 5, OF load measure _ _ alloc draw]
  have run': "text_to_true_pixel_art_alloc memory_limit demo_pillow ''A'' ''font.ttf'' 30
        DEFAULT_TEXT_COLOR DEFAULT_BG_COLOR
      = text_to_true_pixel_art_alloc only_2_by_2 other_pillow ''A'' ''font.ttf'' 30
          DEFAULT_TEXT_COLOR DEFAULT_BG_COLOR \<and>
     (ImageFont_truetype demo_pillow ''font.ttf'' 30 = Inr () \<and>
      ImageDraw_textbbox demo_pillow (0, 0) ''A'' () = Inr (1, 3, 3, 5) \<and>
      (0::int) < 3 - 1 \<and> (0::int) < 5 - 3 \<longrightarrow>
      snd (text_to_true_pixel_art_alloc memory_limit demo_pillow ''A'' ''font.ttf'' 30
             DEFAULT_TEXT_COLOR DEFAULT_BG_COLOR) = [])"
    using available by (intro run) simp_all
  have differ: "ImageDraw_textlength demo_pillow ''A'' () \<noteq> ImageDraw_textlength other_pillow ''A'' ()"
    "ImageFont_truetype demo_pillow ''font.ttf'' 0 \<noteq> ImageFont_truetype other_pillow ''font.ttf'' 0"
    "memory_limit (1, 1) \<noteq> only_2_by_2 (1, 1)"
    by (simp_all add: demo_pillow_def other_pillow_def memory_limit_def only_2_by_2_def)
  have pos: "(0::int) < 3 - 1" "(0::int) < 5 - 3"
    by simp_all
  from run' font box pos differ show ?thesis
    by blast
qed

text \<open>
  C5 as stated fails: with an opaque text colour on a transparent background, a fully covered
  pixel has alpha 0 once the colours are swapped, so the swapped call returns the very same
  buffer instead of its colour inverse.
\<close>

theorem swapped_colors_counterexample:
  "fst (text_to_true_pixel_art demo_pillow ''A'' ''font.ttf'' 30 (0, 0, 0, 255) (0, 0, 0, 0))
     = Inr (Some \<lparr>width = 2, height = 2,
                  getdata = [(0, 0, 0, 255), (0, 0, 0, 0), (0, 0, 0, 0), (0, 0, 0, 255)]\<rparr>) \<and>
   fst (text_to_true_pixel_art demo_pillow ''A'' ''font.ttf'' 30 (0, 0, 0, 0) (0, 0, 0, 255))
     = Inr (Some \<lparr>width = 2, height = 2,
                  getdata = [(0, 0, 0, 255), (0, 0, 0, 0), (0, 0, 0, 0), (0, 0, 0, 255)]\<rparr>)"
  by (simp add: text_to_true_pixel_art_def text_dimensions_def demo_pillow_def blank_def
      Image_new_def demo_text_def demo_drawn_def pure_pixels_map alpha_def upt_conv_Cons)

text \<open>
  C5, amended. Swapping \<open>text_color\<close> and \<open>bg_color\<close> on a non-degenerate input gives a buffer
  of the same width and height over the same two colours. A pixel is the colour inverse of the
  original one where the test \<open>alpha > 0\<close> has the same outcome on the two drawn buffers, and
  equals the original one where the outcomes differ.
\<close>

theorem swapped_colors:
  assumes "ImageFont_truetype p font_path font_size = Inr font"
    and "text_dimensions p text font = (Inr (Some (b0, b1, b2, b3)), msgs)"
    and "0 < b2 - b0" and "0 < b3 - b1"
    and "ImageDraw_text p (Image_new (b2 - b0, b3 - b1) bg_color) (- b0, - b1) text font text_color
           = Inr drawn"
    and "ImageDraw_text p (Image_new (b2 - b0, b3 - b1) text_color) (- b0, - b1) text font bg_color
           = Inr drawn'"
  shows "\<exists>img img'.
           text_to_true_pixel_art p text font_path font_size text_color bg_color
             = (Inr (Some img), msgs) \<and>
           text_to_true_pixel_art p text font_path font_size bg_color text_color
             = (Inr (Some img'), msgs) \<and>
           width img' = width img \<and> height img' = height img \<and>
           length (getdata img') = length (getdata img) \<and>
           (\<forall>i < length (getdata img).
              getdata img ! i = (if 0 < alpha (drawn i) then text_color else bg_color) \<and>
              getdata img' ! i = (if 0 < alpha (drawn' i) then bg_color else text_color) \<and>
              ((0 < alpha (drawn i)) = (0 < alpha (drawn' i)) \<longrightarrow>
                 (getdata img ! i = text_color \<and> getdata img' ! i = bg_color) \<or>
                 (getdata img ! i = bg_color \<and> getdata img' ! i = text_color)) \<and>
              ((0 < alpha (drawn i)) \<noteq> (0 < alpha (drawn' i)) \<longrightarrow>
                 getdata img' ! i = getdata img ! i))"
  unfolding rasterized [OF assms(1,2,3,4,5)] rasterized [OF assms(1,2,3,4,6)]
  by auto

theorem swapped_colors_witness:
  "\<exists>img img'.
     text_to_true_pixel_art demo_pillow ''A'' ''font.ttf'' 30 (0, 0, 0, 255) (0, 0, 0, 0)
       = (Inr (Some img), []) \<and>
     text_to_true_pixel_art demo_pillow ''A'' ''font.ttf'' 30 (0, 0, 0, 0) (0, 0, 0, 255)
       = (Inr (Some img'), []) \<and>
     width img' = width img \<and> height img' = height img \<and>
     length (getdata img') = length (getdata img)"
proof -
  have font: "ImageFont_truetype demo_pillow ''font.ttf'' 30 = Inr ()"
    by (simp add: demo_pillow_def)
  have box: "text_dimensions demo_pillow ''A'' () = (Inr (Some (1, 3, 3, 5)), [])"
    by (simp add: text_dimensions_def demo_pillow_def blank_def)
  have draw: "ImageDraw_text demo_pillow (Image_new (3 - 1, 5 - 3) bg) (- 1, - 3) ''A'' () fill
              = Inr (demo_drawn (Image_new (3 - 1, 5 - 3) bg) (- 1, - 3) ''A'' fill)" for bg fill
    by (simp add: demo_pillow_def demo_text_def)
  have "0 < (3::int) - 1" and "0 < (5::int) - 3"
    by simp_all
  from swapped_colors [OF font box this draw draw] show ?thesis
    by blast
qed


text \<open>
  C6 as stated fails: for a text so long that the buffer for its box cannot be allocated,
  \<open>Image.new\<close> at line 75 raises \<open>MemoryError\<close>, which no handler catches.
\<close>

theorem uncaught_exception_counterexample:
  "text_to_true_pixel_art_alloc memory_limit wide_pillow long_text ''font.ttf'' 30
       DEFAULT_TEXT_COLOR DEFAULT_BG_COLOR
     = (Inl MemoryError, [])"
proof -
  have len: "length long_text = 50000000"
    by (simp only: long_text_def length_replicate)
  have font: "ImageFont_truetype wide_pillow ''font.ttf'' 30 = Inr ()"
    by (simp add: wide_pillow_def demo_pillow_def)
  have box: "text_dimensions wide_pillow long_text () = (Inr (Some (0, 6, 600000000, 30)), [])"
    by (simp add: text_dimensions_def wide_pillow_def len)
  have full: "memory_limit (600000000 - 0, 30 - 6) = Some MemoryError"
    by (simp add: memory_limit_def)
  show ?thesis
    unfolding alloc_dims [OF font box] using full by simp
qed

text \<open>
  C6, amended. \<open>IOError\<close> from opening the font is caught: the function reports an error and
  returns \<open>None\<close>. \<open>AttributeError\<close> from \<open>textbbox\<close> is caught: the fallback follows, its
  warning being the first message. \<open>AttributeError\<close> from \<open>textlength\<close> or \<open>getmetrics\<close> in the
  fallback is caught: the function reports an error and returns \<open>None\<close>. An exception leaves
  the function exactly when the font loader raises one other than \<open>IOError\<close>, a metrics call
  raises one other than \<open>AttributeError\<close>, \<open>Image.new\<close> fails to allocate the buffer for the
  measured box, or \<open>draw.text\<close> raises; otherwise the function returns.
\<close>

theorem exceptions_caught_and_uncaught:
  "(ImageFont_truetype p font_path font_size = Inl IOError \<longrightarrow>
      text_to_true_pixel_art_alloc Image_new_raises p text font_path font_size text_color bg_color
        = (Inr None, [st_error (font_not_found font_path)])) \<and>
   (ImageFont_truetype p font_path font_size = Inr font \<and>
    ImageDraw_textbbox p (0, 0) text font = Inl AttributeError \<longrightarrow>
      (\<exists>rest.
         snd (text_to_true_pixel_art_alloc Image_new_raises p text font_path font_size text_color
                bg_color) = st_warning fallback_warning # rest)) \<and>
   (ImageFont_truetype p font_path font_size = Inr font \<and>
    ImageDraw_textbbox p (0, 0) text font = Inl AttributeError \<and>
    (ImageDraw_textlength p text font = Inl AttributeError \<or>
     (ImageDraw_textlength p text font = Inr len \<and>
      FreeTypeFont_getmetrics p font = Inl AttributeError)) \<longrightarrow>
      text_to_true_pixel_art_alloc Image_new_raises p text font_path font_size text_color bg_color
        = (Inr None, [st_warning fallback_warning, st_error no_dimensions])) \<and>
   (fst (text_to_true_pixel_art_alloc Image_new_raises p text font_path font_size text_color bg_color)
      = Inl e \<longleftrightarrow>
    (ImageFont_truetype p font_path font_size = Inl e \<and> e \<noteq> IOError) \<or>
    (\<exists>font. ImageFont_truetype p font_path font_size = Inr font \<and>
       ((ImageDraw_textbbox p (0, 0) text font = Inl e \<and> e \<noteq> AttributeError) \<or>
        (ImageDraw_textbbox p (0, 0) text font = Inl AttributeError \<and>
           ((ImageDraw_textlength p text font = Inl e \<and> e \<noteq> AttributeError) \<or>
            (\<exists>len. ImageDraw_textlength p text font = Inr len \<and>
                   FreeTypeFont_getmetrics p font = Inl e \<and> e \<noteq> AttributeError))) \<or>
        (\<exists>b0 b1 b2 b3.
           fst (text_dimensions p text font) = Inr (Some (b0, b1, b2, b3)) \<and>
           0 < b2 - b0 \<and> 0 < b3 - b1 \<and>
           (Image_new_raises (b2 - b0, b3 - b1) = Some e \<or>
            (Image_new_raises (b2 - b0, b3 - b1) = None \<and>
             ImageDraw_text p (Image_new (b2 - b0, b3 - b1) bg_color) (- b0, - b1) text font
               text_color = Inl e))))))"
proof -
  let ?run = "text_to_true_pixel_art_alloc Image_new_raises p text font_path font_size text_color
                bg_color"
  have load: "?run = (Inr None, [st_error (font_not_found font_path)])"
    if "ImageFont_truetype p font_path font_size = Inl IOError"
    using that by (simp add: text_to_true_pixel_art_alloc_def)
  have warns: "\<exists>rest. snd ?run = st_warning fallback_warning # rest"
    if "ImageFont_truetype p font_path font_size = Inr font"
      and "ImageDraw_textbbox p (0, 0) text font = Inl AttributeError"
    using alloc_msgs [OF that(1), of Image_new_raises "text" text_color bg_color]
      fallback_warns [OF that(2)] by auto
  have none: "?run = (Inr None, [st_warning fallback_warning, st_error no_dimensions])"
    if font: "ImageFont_truetype p font_path font_size = Inr font"
      and box: "ImageDraw_textbbox p (0, 0) text font = Inl AttributeError"
      and missing: "ImageDraw_textlength p text font = Inl AttributeError \<or>
         (ImageDraw_textlength p text font = Inr len \<and>
          FreeTypeFont_getmetrics p font = Inl AttributeError)"
  proof -
    have "text_dimensions p text font
            = (Inr None, [st_warning fallback_warning, st_error no_dimensions])"
      using missing by (auto simp: text_dimensions_fallback [OF box])
    from alloc_dims [OF font this] show ?thesis
      by simp
  qed
  have escapes: "fst ?run = Inl e \<longleftrightarrow>
    (ImageFont_truetype p font_path font_size = Inl e \<and> e \<noteq> IOError) \<or>
    (\<exists>font. ImageFont_truetype p font_path font_size = Inr font \<and>
       ((ImageDraw_textbbox p (0, 0) text font = Inl e \<and> e \<noteq> AttributeError) \<or>
        (ImageDraw_textbbox p (0, 0) text font = Inl AttributeError \<and>
           ((ImageDraw_textlength p text font = Inl e \<and> e \<noteq> AttributeError) \<or>
            (\<exists>len. ImageDraw_textlength p text font = Inr len \<and>
                   FreeTypeFont_getmetrics p font = Inl e \<and> e \<noteq> AttributeError))) \<or>
        (\<exists>b0 b1 b2 b3.
           fst (text_dimensions p text font) = Inr (Some (b0, b1, b2, b3)) \<and>
           0 < b2 - b0 \<and> 0 < b3 - b1 \<and>
           (Image_new_raises (b2 - b0, b3 - b1) = Some e \<or>
            (Image_new_raises (b2 - b0, b3 - b1) = None \<and>
             ImageDraw_text p (Image_new (b2 - b0, b3 - b1) bg_color) (- b0, - b1) text font
               text_color = Inl e)))))"
  proof (cases "ImageFont_truetype p font_path font_size")
    case (Inl e')
    then show ?thesis
      by (auto simp: text_to_true_pixel_art_alloc_def)
  next
    case (Inr font')
    show ?thesis
      unfolding alloc_raises [OF Inr] text_dimensions_raises using Inr by simp
  qed
  show ?thesis
    using load warns none escapes by blast
qed

theorem exceptions_caught_and_uncaught_witness:
  "text_to_true_pixel_art_alloc memory_limit demo_pillow ''A'' ''fonts/missing.ttf'' 30
       DEFAULT_TEXT_COLOR DEFAULT_BG_COLOR
     = (Inr None, [st_error (font_not_found ''fonts/missing.ttf'')]) \<and>
   text_to_true_pixel_art_alloc memory_limit pillow_7 ''A'' ''font.ttf'' 30
       DEFAULT_TEXT_COLOR DEFAULT_BG_COLOR
     = (Inr None, [st_warning fallback_warning, st_error no_dimensions]) \<and>
   fst (text_to_true_pixel_art_alloc memory_limit wide_pillow long_text ''font.ttf'' 30
          DEFAULT_TEXT_COLOR DEFAULT_BG_COLOR) = Inl MemoryError \<and>
   fst (text_to_true_pixel_art_alloc memory_limit demo_pillow ''A'' ''font.ttf'' 30
          DEFAULT_TEXT_COLOR DEFAULT_BG_COLOR) \<noteq> Inl MemoryError"
proof -
  have missing: "ImageFont_truetype demo_pillow ''fonts/missing.ttf'' 30 = Inl IOError"
    by (simp add: demo_pillow_def)
  have old: "ImageFont_truetype pillow_7 ''font.ttf'' 30 = Inr () \<and>
      ImageDraw_textbbox pillow_7 (0, 0) ''A'' () = Inl AttributeError \<and>
      (ImageDraw_textlength pillow_7 ''A'' () = Inl AttributeError \<or>
       (ImageDraw_textlength pillow_7 ''A'' () = Inr 0 \<and>
        FreeTypeFont_getmetrics pillow_7 () = Inl AttributeError))"
    by (simp add: pillow_7_def demo_pillow_def)
  have len: "length long_text = 50000000"
    by (simp only: long_text_def length_replicate)
  have huge: "ImageFont_truetype wide_pillow ''font.ttf'' 30 = Inr () \<and>
      fst (text_dimensions wide_pillow long_text ()) = Inr (Some (0, 6, 600000000, 30)) \<and>
      (0::int) < 600000000 - 0 \<and> (0::int) < 30 - 6 \<and>
      memory_limit (600000000 - 0, 30 - 6) = Some MemoryError"
    by (simp add: text_dimensions_def wide_pillow_def demo_pillow_def len memory_limit_def)
  note caught = exceptions_caught_and_uncaught [of demo_pillow "''fonts/missing.ttf''" 30 memory_limit
      "''A''" DEFAULT_TEXT_COLOR DEFAULT_BG_COLOR]
  note fallback = exceptions_caught_and_uncaught [of pillow_7 "''font.ttf''" 30 memory_limit
      "''A''" DEFAULT_TEXT_COLOR DEFAULT_BG_COLOR "()" 0]
  note escapes = exceptions_caught_and_uncaught [of wide_pillow "''font.ttf''" 30 memory_limit
      long_text DEFAULT_TEXT_COLOR DEFAULT_BG_COLOR _ _ MemoryError]
  from caught missing
  have "text_to_true_pixel_art_alloc memory_limit demo_pillow ''A'' ''fonts/missing.ttf'' 30
          DEFAULT_TEXT_COLOR DEFAULT_BG_COLOR
        = (Inr None, [st_error (font_not_found ''fonts/missing.ttf'')])"
    by blast
  moreover from fallback old
  have "text_to_true_pixel_art_alloc memory_limit pillow_7 ''A'' ''font.ttf'' 30
          DEFAULT_TEXT_COLOR DEFAULT_BG_COLOR
        = (Inr None, [st_warning fallback_warning, st_error no_dimensions])"
    by blast
  moreover from escapes huge
  have "fst (text_to_true_pixel_art_alloc memory_limit wide_pillow long_text ''font.ttf'' 30
          DEFAULT_TEXT_COLOR DEFAULT_BG_COLOR) = Inl MemoryError"
    by blast
  moreover
  have "fst (text_to_true_pixel_art_alloc memory_limit demo_pillow ''A'' ''font.ttf'' 30
          DEFAULT_TEXT_COLOR DEFAULT_BG_COLOR) \<noteq> Inl MemoryError"
    using exceptions_caught_and_uncaught [of demo_pillow "''font.ttf''" 30 memory_limit
      "''A''" DEFAULT_TEXT_COLOR DEFAULT_BG_COLOR _ _ MemoryError]
    by (simp add: demo_pillow_def text_dimensions_def blank_def demo_text_def memory_limit_def)
  ultimately show ?thesis
    by blast
qed

text \<open>
  C7 as stated fails: where \<open>textlength\<close> is missing as well, as in every Pillow that lacks
  \<open>textbbox\<close>, the fallback reports an error and returns no buffer.
\<close>

theorem metrics_fallback_counterexample:
  "text_to_true_pixel_art pillow_7 ''A'' ''font.ttf'' 30 DEFAULT_TEXT_COLOR DEFAULT_BG_COLOR
     = (Inr None, [st_warning fallback_warning, st_error no_dimensions])"
  by (simp add: text_to_true_pixel_art_def text_dimensions_def pillow_7_def demo_pillow_def)

text \<open>
  C7, amended. When \<open>textbbox\<close> is unavailable the function warns and, if \<open>textlength\<close> and
  \<open>getmetrics\<close> are available, uses the box \<open>(0, 0, int(advance width), ascent + descent)\<close>: it
  then returns the 1 by 1 image when that box is degenerate and an image of that size when
  drawing succeeds. If \<open>textlength\<close> or \<open>getmetrics\<close> is unavailable too, it reports an error
  and returns \<open>None\<close>.
\<close>

theorem metrics_fallback:
  assumes "ImageFont_truetype p font_path font_size = Inr font"
    and "ImageDraw_textbbox p (0, 0) text font = Inl AttributeError"
  shows "(ImageDraw_textlength p text font = Inl AttributeError \<or>
          (ImageDraw_textlength p text font = Inr len \<and>
           FreeTypeFont_getmetrics p font = Inl AttributeError) \<longrightarrow>
          text_to_true_pixel_art p text font_path font_size text_color bg_color
            = (Inr None, [st_warning fallback_warning, st_error no_dimensions])) \<and>
         (ImageDraw_textlength p text font = Inr len \<and>
          FreeTypeFont_getmetrics p font = Inr (ascent, descent) \<longrightarrow>
            text_dimensions p text font
              = (Inr (Some (0, 0, py_int len, ascent + descent)), [st_warning fallback_warning]) \<and>
            (py_int len \<le> 0 \<or> ascent + descent \<le> 0 \<longrightarrow>
               text_to_true_pixel_art p text font_path font_size text_color bg_color
                 = (Inr (Some \<lparr>width = 1, height = 1, getdata = [bg_color]\<rparr>),
                    [st_warning fallback_warning, st_warning (zero_size text)])) \<and>
            (0 < py_int len \<and> 0 < ascent + descent \<and>
             ImageDraw_text p (Image_new (py_int len, ascent + descent) bg_color) (0, 0) text font
               text_color = Inr drawn \<longrightarrow>
               (\<exists>img. text_to_true_pixel_art p text font_path font_size text_color bg_color
                        = (Inr (Some img), [st_warning fallback_warning]) \<and>
                      width img = py_int len \<and> height img = ascent + descent)))"
proof -
  note dims = text_dimensions_fallback [OF assms(2)]
  have none: "text_to_true_pixel_art p text font_path font_size text_color bg_color
                = (Inr None, [st_warning fallback_warning, st_error no_dimensions])"
    if "text_dimensions p text font
          = (Inr None, [st_warning fallback_warning, st_error no_dimensions])"
    using that assms(1) by (simp add: text_to_true_pixel_art_def)
  have unavailable: "text_to_true_pixel_art p text font_path font_size text_color bg_color
                = (Inr None, [st_warning fallback_warning, st_error no_dimensions])"
    if "ImageDraw_textlength p text font = Inl AttributeError \<or>
        (ImageDraw_textlength p text font = Inr len \<and>
         FreeTypeFont_getmetrics p font = Inl AttributeError)"
    using that by (intro none) (auto simp: dims)
  have available:
    "text_dimensions p text font
       = (Inr (Some (0, 0, py_int len, ascent + descent)), [st_warning fallback_warning]) \<and>
     (py_int len \<le> 0 \<or> ascent + descent \<le> 0 \<longrightarrow>
        text_to_true_pixel_art p text font_path font_size text_color bg_color
          = (Inr (Some \<lparr>width = 1, height = 1, getdata = [bg_color]\<rparr>),
             [st_warning fallback_warning, st_warning (zero_size text)])) \<and>
     (0 < py_int len \<and> 0 < ascent + descent \<and>
      ImageDraw_text p (Image_new (py_int len, ascent + descent) bg_color) (0, 0) text font
        text_color = Inr drawn \<longrightarrow>
        (\<exists>img. text_to_true_pixel_art p text font_path font_size text_color bg_color
                 = (Inr (Some img), [st_warning fallback_warning]) \<and>
               width img = py_int len \<and> height img = ascent + descent))"
    if "ImageDraw_textlength p text font = Inr len"
      and "FreeTypeFont_getmetrics p font = Inr (ascent, descent)"
  proof -
    have box: "text_dimensions p text font
       = (Inr (Some (0, 0, py_int len, ascent + descent)), [st_warning fallback_warning])"
      using that by (simp add: dims)
    have small: "text_to_true_pixel_art p text font_path font_size text_color bg_color
          = (Inr (Some \<lparr>width = 1, height = 1, getdata = [bg_color]\<rparr>),
             [st_warning fallback_warning, st_warning (zero_size text)])"
      if "py_int len \<le> 0 \<or> ascent + descent \<le> 0"
      using degenerate [OF assms(1) box] that by simp
    have large: "\<exists>img. text_to_true_pixel_art p text font_path font_size text_color bg_color
                    = (Inr (Some img), [st_warning fallback_warning]) \<and>
                  width img = py_int len \<and> height img = ascent + descent"
      if "0 < py_int len" and "0 < ascent + descent"
        and "ImageDraw_text p (Image_new (py_int len, ascent + descent) bg_color) (0, 0) text font
               text_color = Inr drawn"
      using rasterized [OF assms(1) box, of bg_color text_color drawn] that by simp
    show ?thesis
      using box small large by blast
  qed
  show ?thesis
    using unavailable available by blast
qed

theorem metrics_fallback_witness:
  "\<exists>img. text_to_true_pixel_art no_textbbox ''A'' ''font.ttf'' 30 DEFAULT_TEXT_COLOR DEFAULT_BG_COLOR
            = (Inr (Some img), [st_warning fallback_warning]) \<and>
         width img = 2 \<and> height img = 5"
proof -
  have font: "ImageFont_truetype no_textbbox ''font.ttf'' 30 = Inr ()"
    by (simp add: no_textbbox_def demo_pillow_def)
  have box: "ImageDraw_textbbox no_textbbox (0, 0) ''A'' () = Inl AttributeError"
    by (simp add: no_textbbox_def)
  have len: "ImageDraw_textlength no_textbbox ''A'' () = Inr (5 / 2)"
    by (simp add: no_textbbox_def demo_pillow_def)
  have metrics: "FreeTypeFont_getmetrics no_textbbox () = Inr (4, 1)"
    by (simp add: no_textbbox_def demo_pillow_def)
  have trunc: "py_int (5 / 2) = 2"
    by (simp add: py_int_def floor_eq_iff)
  have draw: "ImageDraw_text no_textbbox (Image_new (py_int (5 / 2), 4 + 1) DEFAULT_BG_COLOR) (0, 0) ''A'' ()
                DEFAULT_TEXT_COLOR
              = Inr (demo_drawn (Image_new (py_int (5 / 2), 4 + 1) DEFAULT_BG_COLOR) (0, 0) ''A''
                       DEFAULT_TEXT_COLOR)"
    by (simp add: no_textbbox_def demo_pillow_def demo_text_def)
  have pos: "0 < py_int (5 / 2)" "0 < (4::int) + 1"
    by (simp_all add: trunc)
  from metrics_fallback [OF font box, of "5 / 2" DEFAULT_TEXT_COLOR DEFAULT_BG_COLOR 4 1] len metrics
    pos draw
  have "\<exists>img. text_to_true_pixel_art no_textbbox ''A'' ''font.ttf'' 30 DEFAULT_TEXT_COLOR DEFAULT_BG_COLOR
            = (Inr (Some img), [st_warning fallback_warning]) \<and>
         width img = py_int (5 / 2) \<and> height img = 4 + 1"
    by blast
  then show ?thesis
    by (simp add: trunc)
qed

text \<open>
  C8. If opening the font raises \<open>IOError\<close>, the function reports the error and returns
  \<open>None\<close> at once: the result is the same whatever the measuring and drawing routines are, so
  none of them is used.
\<close>

theorem font_load_error:
  assumes "ImageFont_truetype p font_path font_size = Inl IOError"
  shows "text_to_true_pixel_art p text font_path font_size text_color bg_color
           = (Inr None, [st_error (font_not_found font_path)]) \<and>
         text_to_true_pixel_art
           (p\<lparr>ImageDraw_textbbox := bbox, ImageDraw_textlength := len,
              FreeTypeFont_getmetrics := metrics, ImageDraw_text := draw\<rparr>)
           text font_path font_size text_color bg_color
           = (Inr None, [st_error (font_not_found font_path)])"
  using assms by (simp add: text_to_true_pixel_art_def)

theorem font_load_error_witness:
  "text_to_true_pixel_art demo_pillow ''A'' ''fonts/missing.ttf'' 30 DEFAULT_TEXT_COLOR DEFAULT_BG_COLOR
     = (Inr None,
        [st_error (''Error: Font file not found at '' @ [CHR 0x27] @ ''fonts/missing.ttf'' @ [CHR 0x27] @
                   ''. Make sure '' @ [CHR 0x27] @ ''missing.ttf'' @ [CHR 0x27] @
                   '' is in the same directory as the script.'')])"
proof -
  have "ImageFont_truetype demo_pillow ''fonts/missing.ttf'' 30 = Inl IOError"
    by (simp add: demo_pillow_def)
  from font_load_error [OF this] show ?thesis
    by (simp add: font_not_found_def basename_def)
qed

lemma join_replaced:
  "join (map (\<lambda>c. if isalnum c then [c] else ''_'') s) = map (\<lambda>c. if isalnum c then c else CHR ''_'') s"
  by (induction s) (simp_all add: join_def)

lemma trim_trailing_rstrip: "trim_trailing s = rstrip s ''_''"
proof (induction s rule: trim_trailing.induct)
  case (1 s)
  show ?case
  proof (cases "s \<noteq> [] \<and> last s = CHR ''_''")
    case True
    then have s: "s = butlast s @ ''_''"
      by (metis append_butlast_last_id)
    have "trim_trailing s = trim_trailing (butlast s)"
      using True by (subst trim_trailing.simps) simp
    also have "\<dots> = rstrip (butlast s) ''_''"
      using True by (rule "1.IH")
    also have "\<dots> = rstrip s ''_''"
      by (subst (2) s) (simp add: rstrip_def)
    finally show ?thesis .
  next
    case False
    then have "trim_trailing s = s"
      by (subst trim_trailing.simps) auto
    moreover have "rstrip s ''_'' = s"
    proof (cases s rule: rev_cases)
      case Nil
      then show ?thesis by (simp add: rstrip_def)
    next
      case (snoc ys y)
      with False show ?thesis by (simp add: rstrip_def)
    qed
    ultimately show ?thesis by simp
  qed
qed

lemma rstrip_prefix: "rstrip s chars = take (length (rstrip s chars)) s"
proof -
  have "rev s = takeWhile (\<lambda>c. c \<in> set chars) (rev s) @ dropWhile (\<lambda>c. c \<in> set chars) (rev s)"
    by simp
  then have "s = rstrip s chars @ rev (takeWhile (\<lambda>c. c \<in> set chars) (rev s))"
    unfolding rstrip_def by (metis rev_append rev_rev_ident)
  then show ?thesis
    by (metis append_eq_conv_conj)
qed

lemma rstrip_last: "rstrip s chars \<noteq> [] \<Longrightarrow> last (rstrip s chars) \<notin> set chars"
  unfolding rstrip_def by (metis hd_dropWhile last_rev rev_is_Nil_conv)

lemma rstrip_empty: "\<forall>c \<in> set s. c \<in> set chars \<Longrightarrow> rstrip s chars = []"
  by (simp add: rstrip_def)


text \<open>
  C9. The download name is the one the specification describes: the first 20 characters with
  every non-alphanumeric one replaced by an underscore, trailing underscores removed, and
  \<open>pixel_text\<close> when nothing is left. It has at most 20 characters, all alphanumeric or
  underscores, is not empty and does not end with an underscore. For \<open>Hello, World!! 2024\<close>
  it is \<open>Hello__World___2024\<close>.
\<close>

theorem safe_filename_derivation:
  "safe_filename text_input = spec_filename text_input \<and>
   length (safe_filename text_input) \<le> 20 \<and>
   (\<forall>c \<in> set (safe_filename text_input). isalnum c \<or> c = CHR ''_'') \<and>
   safe_filename text_input \<noteq> [] \<and>
   last (safe_filename text_input) \<noteq> CHR ''_'' \<and>
   (safe_filename text_input = ''pixel_text'' \<or>
    (\<exists>n \<le> 20. safe_filename text_input
                = map (\<lambda>c. if isalnum c then c else CHR ''_'') (take n text_input))) \<and>
   ((\<forall>c \<in> set (take 20 text_input). \<not> isalnum c) \<longrightarrow> safe_filename text_input = ''pixel_text'') \<and>
   safe_filename ''Hello, World!! 2024'' = ''Hello__World___2024''"
proof -
  let ?under = "\<lambda>c. if isalnum c then c else CHR ''_''"
  let ?kept = "map ?under (take 20 text_input)"
  let ?safe = "rstrip ?kept ''_''"
  have name: "safe_filename text_input = (if ?safe = [] then ''pixel_text'' else ?safe)"
    by (simp add: safe_filename_def join_replaced)
  have spec: "spec_filename text_input = (if ?safe = [] then ''pixel_text'' else ?safe)"
    by (simp add: spec_filename_def trim_trailing_rstrip take_map)
  have prefix: "?safe = take (length ?safe) ?kept"
    by (rule rstrip_prefix)
  have short: "length ?safe \<le> 20"
    by (subst prefix) simp
  have chars: "isalnum c \<or> c = CHR ''_''" if "c \<in> set ?safe" for c
  proof -
    have "c \<in> set ?kept"
      using that by (subst (asm) prefix) (rule in_set_takeD)
    then show ?thesis by auto
  qed
  have ending: "last ?safe \<noteq> CHR ''_''" if "?safe \<noteq> []"
    using rstrip_last [OF that] by simp
  have taken: "?safe = map ?under (take (length ?safe) text_input)"
    by (subst prefix) (simp add: take_map min_absorb1 short)
  have fallback: "?safe = []" if "\<forall>c \<in> set (take 20 text_input). \<not> isalnum c"
    using that by (intro rstrip_empty) auto
  have example: "safe_filename ''Hello, World!! 2024'' = ''Hello__World___2024''"
    by (simp add: safe_filename_def rstrip_def join_def isalnum_def)
  have "length (safe_filename text_input) \<le> 20"
    using short by (simp add: name)
  moreover have "\<forall>c \<in> set (safe_filename text_input). isalnum c \<or> c = CHR ''_''"
    using chars by (auto simp: name isalnum_def)
  moreover have "safe_filename text_input \<noteq> []" "last (safe_filename text_input) \<noteq> CHR ''_''"
    using ending by (simp_all add: name)
  moreover have "safe_filename text_input = ''pixel_text'' \<or>
    (\<exists>n \<le> 20. safe_filename text_input = map ?under (take n text_input))"
    using taken short unfolding name by (cases "?safe = []") auto
  moreover have "(\<forall>c \<in> set (take 20 text_input). \<not> isalnum c) \<longrightarrow>
      safe_filename text_input = ''pixel_text''"
    using fallback by (simp add: name)
  ultimately show ?thesis
    using name spec example by simp
qed

theorem safe_filename_derivation_witness:
  "safe_filename ''pixel art: 8-bit text rendering'' = ''pixel_art__8_bit_tex'' \<and>
   spec_filename ''pixel art: 8-bit text rendering'' = ''pixel_art__8_bit_tex'' \<and>
   safe_filename ''?! ...'' = ''pixel_text''"
proof -
  have long: "safe_filename ''pixel art: 8-bit text rendering'' = ''pixel_art__8_bit_tex''"
    by (simp add: safe_filename_def rstrip_def join_def isalnum_def)
  have "safe_filename ''pixel art: 8-bit text rendering''
          = spec_filename ''pixel art: 8-bit text rendering''"
    using safe_filename_derivation [of "''pixel art: 8-bit text rendering''"] by (rule conjunct1)
  with long have spec: "spec_filename ''pixel art: 8-bit text rendering'' = ''pixel_art__8_bit_tex''"
    by simp
  have none: "\<forall>c \<in> set (take 20 ''?! ...''). \<not> isalnum c"
    by (simp add: isalnum_def)
  have "(\<forall>c \<in> set (take 20 ''?! ...''). \<not> isalnum c) \<longrightarrow> safe_filename ''?! ...'' = ''pixel_text''"
    using safe_filename_derivation [of "''?! ...''"] by blast
  with none have "safe_filename ''?! ...'' = ''pixel_text''"
    by (rule rev_mp)
  with long spec show ?thesis
    by simp
qed

text \<open>
  C10 as stated fails: on an opaque background a text colour of alpha 0 clears the alpha of
  the covered pixels, which then take \<open>bg_color\<close>; the buffer shows the glyph in two colours.
\<close>

theorem opaque_background_counterexample:
  "fst (text_to_true_pixel_art demo_pillow ''A'' ''font.ttf'' 30 (0, 0, 0, 0) (255, 255, 255, 255))
     = Inr (Some \<lparr>width = 2, height = 2,
                  getdata = [(255, 255, 255, 255), (0, 0, 0, 0), (0, 0, 0, 0), (255, 255, 255, 255)]\<rparr>)"
  by (simp add: text_to_true_pixel_art_def text_dimensions_def demo_pillow_def blank_def
      Image_new_def demo_text_def demo_drawn_def pure_pixels_map alpha_def upt_conv_Cons)

text \<open>
  C10, amended. If the alpha of \<open>bg_color\<close> and the alpha of \<open>text_color\<close> are both positive
  and drawing leaves the alpha of every pixel at least the smaller of the two, as alpha
  blending does, then on a non-degenerate input every pixel of the returned buffer is
  \<open>text_color\<close>, and \<open>bg_color\<close> does not occur when the two colours differ.
\<close>

theorem opaque_background:
  assumes "ImageFont_truetype p font_path font_size = Inr font"
    and "text_dimensions p text font = (Inr (Some (b0, b1, b2, b3)), msgs)"
    and "0 < b2 - b0" and "0 < b3 - b1"
    and "ImageDraw_text p (Image_new (b2 - b0, b3 - b1) bg_color) (- b0, - b1) text font text_color
           = Inr drawn"
    and "0 < alpha bg_color" and "0 < alpha text_color"
    and "\<forall>i < nat ((b2 - b0) * (b3 - b1)). min (alpha bg_color) (alpha text_color) \<le> alpha (drawn i)"
  shows "\<exists>img. text_to_true_pixel_art p text font_path font_size text_color bg_color
                = (Inr (Some img), msgs) \<and>
           getdata img = replicate (nat ((b2 - b0) * (b3 - b1))) text_color \<and>
           (\<forall>px \<in> set (getdata img). px = text_color) \<and>
           (text_color \<noteq> bg_color \<longrightarrow> bg_color \<notin> set (getdata img))"
proof -
  have "0 < alpha (drawn i)" if "i < nat ((b2 - b0) * (b3 - b1))" for i
  proof -
    have "0 < min (alpha bg_color) (alpha text_color)"
      using assms(6,7) by simp
    also have "\<dots> \<le> alpha (drawn i)"
      using assms(8) that by simp
    finally show ?thesis .
  qed
  then have "map (\<lambda>i. if 0 < alpha (drawn i) then text_color else bg_color)
                 [0..<nat ((b2 - b0) * (b3 - b1))]
             = replicate (nat ((b2 - b0) * (b3 - b1))) text_color"
    by (intro nth_equalityI) simp_all
  then show ?thesis
    unfolding rasterized [OF assms(1,2,3,4,5)] by auto
qed


theorem opaque_background_witness:
  "\<exists>img. text_to_true_pixel_art demo_pillow ''A'' ''font.ttf'' 30 (0, 0, 0, 255) (9, 9, 9, 128)
            = (Inr (Some img), []) \<and>
         getdata img = replicate 4 (0, 0, 0, 255)"
proof -
  have font: "ImageFont_truetype demo_pillow ''font.ttf'' 30 = Inr ()"
    by (simp add: demo_pillow_def)
  have box: "text_dimensions demo_pillow ''A'' () = (Inr (Some (1, 3, 3, 5)), [])"
    by (simp add: text_dimensions_def demo_pillow_def blank_def)
  have draw: "ImageDraw_text demo_pillow (Image_new (3 - 1, 5 - 3) (9, 9, 9, 128)) (- 1, - 3) ''A'' ()
                (0, 0, 0, 255)
              = Inr (demo_drawn (Image_new (3 - 1, 5 - 3) (9, 9, 9, 128)) (- 1, - 3) ''A''
                       (0, 0, 0, 255))"
    by (simp add: demo_pillow_def demo_text_def)
  have pos: "0 < (3::int) - 1" "0 < (5::int) - 3"
    by simp_all
  have alphas: "0 < alpha (9, 9, 9, 128)" "0 < alpha (0, 0, 0, 255)"
    by (simp_all add: alpha_def)
  have blend: "\<forall>i < nat ((3 - 1) * (5 - 3)).
      min (alpha (9, 9, 9, 128)) (alpha (0, 0, 0, 255))
        \<le> alpha (demo_drawn (Image_new (3 - 1, 5 - 3) (9, 9, 9, 128)) (- 1, - 3) ''A''
                   (0, 0, 0, 255) i)"
    by (simp add: demo_drawn_def Image_new_def alpha_def)
  from opaque_background [OF font box pos draw alphas blend] show ?thesis
    by auto
qed

end
